theory Spec2Isabelle
  imports Complex_Main
begin

section \<open>Data model of the image editor\<close>

text \<open>
  The editor is the React component \<open>ImageEditor\<close> of
  \<open>src/components/image-editor/image-editor.tsx\<close>. Its hooks (\<open>useState\<close>) are the
  fields of one session record; every handler is a function from session to session.
  A JavaScript \<open>number\<close> is modelled as a \<open>real\<close> (no NaN, no infinities, no rounding),
  an array index as a \<open>nat\<close>.
\<close>

record region =
  region_x :: real
  region_y :: real
  region_width :: real
  region_height :: real

text \<open>\<open>interface ImageState\<close>; the field \<open>filter\<close> is named \<open>filter_val\<close> here.\<close>

record ImageState =
  brightness :: real
  contrast :: real
  saturation :: real
  rotation :: real
  flipH :: bool
  flipV :: bool
  filter_val :: string
  crop :: "region option"

definition defaultState :: ImageState where
  "defaultState =
     \<lparr> brightness = 100, contrast = 100, saturation = 100, rotation = 0,
       flipH = False, flipV = False, filter_val = ''none'', crop = None \<rparr>"

text \<open>\<open>Partial<ImageState>\<close>: every field may be absent.\<close>

record ImagePatch =
  p_brightness :: "real option"
  p_contrast :: "real option"
  p_saturation :: "real option"
  p_rotation :: "real option"
  p_flipH :: "bool option"
  p_flipV :: "bool option"
  p_filter :: "string option"
  p_crop :: "region option option"

definition no_patch :: ImagePatch where
  "no_patch =
     \<lparr> p_brightness = None, p_contrast = None, p_saturation = None, p_rotation = None,
       p_flipH = None, p_flipV = None, p_filter = None, p_crop = None \<rparr>"

text \<open>The object spread \<open>{ ...imageState, ...newState }\<close>.\<close>

definition spread :: "ImageState \<Rightarrow> ImagePatch \<Rightarrow> ImageState" where
  "spread st p =
     \<lparr> brightness = (case p_brightness p of None \<Rightarrow> brightness st | Some v \<Rightarrow> v),
       contrast = (case p_contrast p of None \<Rightarrow> contrast st | Some v \<Rightarrow> v),
       saturation = (case p_saturation p of None \<Rightarrow> saturation st | Some v \<Rightarrow> v),
       rotation = (case p_rotation p of None \<Rightarrow> rotation st | Some v \<Rightarrow> v),
       flipH = (case p_flipH p of None \<Rightarrow> flipH st | Some v \<Rightarrow> v),
       flipV = (case p_flipV p of None \<Rightarrow> flipV st | Some v \<Rightarrow> v),
       filter_val = (case p_filter p of None \<Rightarrow> filter_val st | Some v \<Rightarrow> v),
       crop = (case p_crop p of None \<Rightarrow> crop st | Some v \<Rightarrow> v) \<rparr>"

record point =
  pt_x :: real
  pt_y :: real

record dims =
  dim_width :: real
  dim_height :: real

text \<open>A \<open>DOMRect\<close> as returned by \<open>getBoundingClientRect\<close>.\<close>

record rect =
  rect_left :: real
  rect_top :: real
  rect_width :: real
  rect_height :: real

text \<open>
  The state hooks of the component. \<open>'img\<close> is the type of data URLs (the state
  \<open>image\<close> is named \<open>image_url\<close> here).
\<close>

record 'img session =
  image_url :: "'img option"
  originalImage :: "'img option"
  imageState :: ImageState
  history :: "ImageState list"
  historyIndex :: nat
  isCropping :: bool
  cropStart :: "point option"
  cropEnd :: "point option"
  resizeWidth :: real
  resizeHeight :: real
  originalDimensions :: dims
  maintainAspectRatio :: bool

text \<open>The initial values passed to \<open>useState\<close>.\<close>

definition initial :: "'img session" where
  "initial =
     \<lparr> image_url = None, originalImage = None, imageState = defaultState,
       history = [defaultState], historyIndex = 0, isCropping = False,
       cropStart = None, cropEnd = None, resizeWidth = 0, resizeHeight = 0,
       originalDimensions = \<lparr> dim_width = 0, dim_height = 0 \<rparr>,
       maintainAspectRatio = True \<rparr>"

section \<open>History: updateState, undo, redo\<close>

text \<open>\<open>history.slice(0, historyIndex + 1)\<close> is \<open>take (historyIndex + 1) history\<close>.\<close>

definition updateState :: "ImagePatch \<Rightarrow> 'img session \<Rightarrow> 'img session" where
  "updateState newState s =
     (let updatedState = spread (imageState s) newState;
          newHistory = take (historyIndex s + 1) (history s) @ [updatedState]
      in s \<lparr> imageState := updatedState,
             history := newHistory,
             historyIndex := length newHistory - 1 \<rparr>)"

text \<open>
  \<open>history[i]\<close> is read as \<open>history ! i\<close>; lemma \<open>hist_inv_run\<close> below shows that the
  index is in range in every state the component can reach.
\<close>

definition undo :: "'img session \<Rightarrow> 'img session" where
  "undo s =
     (if historyIndex s > 0
      then s \<lparr> historyIndex := historyIndex s - 1,
               imageState := history s ! (historyIndex s - 1) \<rparr>
      else s)"

definition redo :: "'img session \<Rightarrow> 'img session" where
  "redo s =
     (if historyIndex s < length (history s) - 1
      then s \<lparr> historyIndex := historyIndex s + 1,
               imageState := history s ! (historyIndex s + 1) \<rparr>
      else s)"

section \<open>The browser\<close>

text \<open>
  Decoding and rasterisation are done by the browser (\<open>Image\<close>, \<open>canvas\<close>), not by the
  component. They are parameters of the model:
  \<^item> \<open>decodes u\<close>: the \<open>onload\<close> handler of an \<open>Image\<close> with \<open>src = u\<close> fires;
  \<^item> \<open>naturalWidth u\<close>, \<open>naturalHeight u\<close>: \<open>img.width\<close>, \<open>img.height\<close> of the decoded image;
  \<^item> \<open>context2d\<close>: \<open>canvas.getContext("2d")\<close> is not null;
  \<^item> \<open>drawImage_crop u sx sy sw sh\<close>: the PNG data URL of a fresh canvas of size
    \<open>sw\<close> by \<open>sh\<close> after \<open>ctx.drawImage(img, sx, sy, sw, sh, 0, 0, sw, sh)\<close>, with no filter
    and no transform set on the context;
  \<^item> \<open>drawImage_scale u w h\<close>: the PNG data URL of a fresh canvas of size \<open>w\<close> by \<open>h\<close>
    after \<open>ctx.drawImage(img, 0, 0, w, h)\<close>.
  An asynchronous completion (\<open>reader.onload\<close>, \<open>img.onload\<close>) is taken to run right
  after the handler that requested it.
\<close>

record 'img browser =
  decodes :: "'img \<Rightarrow> bool"
  naturalWidth :: "'img \<Rightarrow> real"
  naturalHeight :: "'img \<Rightarrow> real"
  context2d :: bool
  drawImage_crop :: "'img \<Rightarrow> real \<Rightarrow> real \<Rightarrow> real \<Rightarrow> real \<Rightarrow> 'img"
  drawImage_scale :: "'img \<Rightarrow> real \<Rightarrow> real \<Rightarrow> 'img"

section \<open>Loading an image\<close>

record 'img picked_file =
  type_is_image :: bool
  dataUrl :: "'img"

definition handleFileUpload ::
  "'img browser \<Rightarrow> 'img picked_file option \<Rightarrow> 'img session \<Rightarrow> 'img session" where
  "handleFileUpload b picked s =
     (case picked of
        None \<Rightarrow> s
      | Some f \<Rightarrow>
          (let s1 = s \<lparr> image_url := Some (dataUrl f),
                         originalImage := Some (dataUrl f),
                         imageState := defaultState,
                         history := [defaultState],
                         historyIndex := 0 \<rparr>
           in if decodes b (dataUrl f)
              then s1 \<lparr> originalDimensions :=
                          \<lparr> dim_width = naturalWidth b (dataUrl f),
                            dim_height = naturalHeight b (dataUrl f) \<rparr>,
                        resizeWidth := naturalWidth b (dataUrl f),
                        resizeHeight := naturalHeight b (dataUrl f) \<rparr>
              else s1))"

definition handleDrop ::
  "'img browser \<Rightarrow> 'img picked_file option \<Rightarrow> 'img session \<Rightarrow> 'img session" where
  "handleDrop b picked s =
     (case picked of
        None \<Rightarrow> s
      | Some f \<Rightarrow>
          if type_is_image f
          then (let s1 = s \<lparr> image_url := Some (dataUrl f),
                              originalImage := Some (dataUrl f),
                              imageState := defaultState,
                              history := [defaultState],
                              historyIndex := 0 \<rparr>
                in if decodes b (dataUrl f)
                   then s1 \<lparr> originalDimensions :=
                               \<lparr> dim_width = naturalWidth b (dataUrl f),
                                 dim_height = naturalHeight b (dataUrl f) \<rparr>,
                             resizeWidth := naturalWidth b (dataUrl f),
                             resizeHeight := naturalHeight b (dataUrl f) \<rparr>
                   else s1)
          else s)"

section \<open>Preview style\<close>

text \<open>
  A CSS \<open>filter\<close> value is a list of filter functions, a CSS \<open>transform\<close> value a list of
  transform functions; the template strings of the source are these lists, written with
  spaces between the functions.
\<close>

datatype filter_fn =
  Brightness_pct real
| Contrast_pct real
| Saturate_pct real
| Grayscale_pct real
| Sepia_pct real
| Invert_pct real
| Blur_px real
| Hue_rotate_deg real

datatype transform_fn =
  Rotate_deg real
| ScaleX real
| ScaleY real

record filter_entry =
  f_name :: string
  f_value :: string
  f_css :: "filter_fn list"

definition filters :: "filter_entry list" where
  "filters =
     [ \<lparr> f_name = ''None'', f_value = ''none'', f_css = [] \<rparr>,
       \<lparr> f_name = ''Grayscale'', f_value = ''grayscale'', f_css = [Grayscale_pct 100] \<rparr>,
       \<lparr> f_name = ''Sepia'', f_value = ''sepia'', f_css = [Sepia_pct 100] \<rparr>,
       \<lparr> f_name = ''Invert'', f_value = ''invert'', f_css = [Invert_pct 100] \<rparr>,
       \<lparr> f_name = ''Blur'', f_value = ''blur'', f_css = [Blur_px 2] \<rparr>,
       \<lparr> f_name = ''Vintage'', f_value = ''vintage'',
         f_css = [Sepia_pct 50, Contrast_pct 90, Brightness_pct 90] \<rparr>,
       \<lparr> f_name = ''Cool'', f_value = ''cool'',
         f_css = [Hue_rotate_deg 180, Saturate_pct 80] \<rparr>,
       \<lparr> f_name = ''Warm'', f_value = ''warm'',
         f_css = [Sepia_pct 30, Saturate_pct 140] \<rparr> ]"

definition getFilterCss :: "ImageState \<Rightarrow> filter_fn list" where
  "getFilterCss st =
     (let filter = find (\<lambda>f. f_value f = filter_val st) filters;
          baseFilters = [Brightness_pct (brightness st), Contrast_pct (contrast st),
                         Saturate_pct (saturation st)]
      in case filter of
           None \<Rightarrow> baseFilters
         | Some f \<Rightarrow> if f_css f \<noteq> [] then baseFilters @ f_css f else baseFilters)"

definition getTransform :: "ImageState \<Rightarrow> transform_fn list" where
  "getTransform st =
     (let transform = [Rotate_deg (rotation st)];
          transform = (if flipH st then transform @ [ScaleX (- 1)] else transform);
          transform = (if flipV st then transform @ [ScaleY (- 1)] else transform)
      in transform)"

section \<open>Crop selection and crop commit\<close>

text \<open>
  A mouse event on the container: the pointer position and the bounding rectangle of
  \<open>e.currentTarget\<close>.
\<close>

record mouse_event =
  clientX :: real
  clientY :: real
  target_rect :: rect

definition handleCropMouseDown :: "mouse_event \<Rightarrow> 'img session \<Rightarrow> 'img session" where
  "handleCropMouseDown e s =
     (if \<not> isCropping s then s
      else
        (let r = target_rect e;
             x = clientX e - rect_left r;
             y = clientY e - rect_top r
         in s \<lparr> cropStart := Some \<lparr> pt_x = x, pt_y = y \<rparr>,
                cropEnd := Some \<lparr> pt_x = x, pt_y = y \<rparr> \<rparr>))"

definition handleCropMouseMove :: "mouse_event \<Rightarrow> 'img session \<Rightarrow> 'img session" where
  "handleCropMouseMove e s =
     (if \<not> isCropping s \<or> cropStart s = None then s
      else
        (let r = target_rect e;
             x = max 0 (min (clientX e - rect_left r) (rect_width r));
             y = max 0 (min (clientY e - rect_top r) (rect_height r))
         in s \<lparr> cropEnd := Some \<lparr> pt_x = x, pt_y = y \<rparr> \<rparr>))"

definition handleCropMouseUp :: "'img session \<Rightarrow> 'img session" where
  "handleCropMouseUp s = (if cropStart s = None \<or> cropEnd s = None then s else s)"

text \<open>
  \<open>applyCrop\<close>. \<open>imgRect\<close> is the bounding rectangle of the \<open>img\<close> element inside the
  container, \<open>None\<close> when the container or the element is missing. The source rectangle
  is computed first; \<open>img.onload\<close> then installs the result. A division by a zero
  \<open>rect.width\<close> is \<open>0\<close> here and not a number in JavaScript.
\<close>

definition crop_source_rect :: "'img session \<Rightarrow> rect \<Rightarrow> point \<Rightarrow> point \<Rightarrow> region" where
  "crop_source_rect s r cs ce =
     (let scaleX = dim_width (originalDimensions s) / rect_width r;
          scaleY = dim_height (originalDimensions s) / rect_height r;
          cropX = min (pt_x cs) (pt_x ce) * scaleX;
          cropY = min (pt_y cs) (pt_y ce) * scaleY;
          cropWidth = \<bar>pt_x ce - pt_x cs\<bar> * scaleX;
          cropHeight = \<bar>pt_y ce - pt_y cs\<bar> * scaleY
      in \<lparr> region_x = cropX, region_y = cropY,
           region_width = cropWidth, region_height = cropHeight \<rparr>)"

definition applyCrop :: "'img browser \<Rightarrow> rect option \<Rightarrow> 'img session \<Rightarrow> 'img session" where
  "applyCrop b imgRect s =
     (case (cropStart s, cropEnd s, image_url s, imgRect) of
        (Some cs, Some ce, Some img, Some r) \<Rightarrow>
          (let c = crop_source_rect s r cs ce in
           if \<not> context2d b then s
           else if \<not> decodes b img then s
           else
             (let croppedDataUrl =
                    drawImage_crop b img (region_x c) (region_y c)
                      (region_width c) (region_height c)
              in s \<lparr> image_url := Some croppedDataUrl,
                     originalImage := Some croppedDataUrl,
                     originalDimensions :=
                       \<lparr> dim_width = region_width c, dim_height = region_height c \<rparr>,
                     resizeWidth := region_width c,
                     resizeHeight := region_height c,
                     isCropping := False,
                     cropStart := None,
                     cropEnd := None \<rparr>))
      | _ \<Rightarrow> s)"

definition cancelCrop :: "'img session \<Rightarrow> 'img session" where
  "cancelCrop s = s \<lparr> isCropping := False, cropStart := None, cropEnd := None \<rparr>"

text \<open>\<open>getCropRect\<close>: the overlay rectangle, in display coordinates.\<close>

definition getCropRect :: "'img session \<Rightarrow> rect option" where
  "getCropRect s =
     (case (cropStart s, cropEnd s) of
        (Some cs, Some ce) \<Rightarrow>
          Some \<lparr> rect_left = min (pt_x cs) (pt_x ce),
                 rect_top = min (pt_y cs) (pt_y ce),
                 rect_width = \<bar>pt_x ce - pt_x cs\<bar>,
                 rect_height = \<bar>pt_y ce - pt_y cs\<bar> \<rparr>
      | _ \<Rightarrow> None)"

section \<open>Resize\<close>

definition handleResize :: "'img browser \<Rightarrow> 'img session \<Rightarrow> 'img session" where
  "handleResize b s =
     (case image_url s of
        None \<Rightarrow> s
      | Some img \<Rightarrow>
          if \<not> context2d b then s
          else if \<not> decodes b img then s
          else
            (let resizedDataUrl = drawImage_scale b img (resizeWidth s) (resizeHeight s)
             in s \<lparr> image_url := Some resizedDataUrl,
                    originalImage := Some resizedDataUrl,
                    originalDimensions :=
                      \<lparr> dim_width = resizeWidth s, dim_height = resizeHeight s \<rparr> \<rparr>))"

text \<open>\<open>Math.round\<close> rounds half up.\<close>

definition math_round :: "real \<Rightarrow> real" where
  "math_round v = of_int \<lfloor>v + 1 / 2\<rfloor>"

text \<open>
  \<open>parsed\<close> is the value of \<open>parseInt(value)\<close>, \<open>None\<close> for NaN; \<open>parseInt(value) || 0\<close>
  is \<open>0\<close> for NaN and for \<open>0\<close>.
\<close>

definition handleWidthChange :: "int option \<Rightarrow> 'img session \<Rightarrow> 'img session" where
  "handleWidthChange parsed s =
     (let newWidth = (case parsed of None \<Rightarrow> 0 | Some n \<Rightarrow> of_int n);
          s1 = s \<lparr> resizeWidth := newWidth \<rparr>
      in if maintainAspectRatio s \<and> dim_width (originalDimensions s) > 0
         then (let ratio = dim_height (originalDimensions s) / dim_width (originalDimensions s)
               in s1 \<lparr> resizeHeight := math_round (newWidth * ratio) \<rparr>)
         else s1)"

definition handleHeightChange :: "int option \<Rightarrow> 'img session \<Rightarrow> 'img session" where
  "handleHeightChange parsed s =
     (let newHeight = (case parsed of None \<Rightarrow> 0 | Some n \<Rightarrow> of_int n);
          s1 = s \<lparr> resizeHeight := newHeight \<rparr>
      in if maintainAspectRatio s \<and> dim_height (originalDimensions s) > 0
         then (let ratio = dim_width (originalDimensions s) / dim_height (originalDimensions s)
               in s1 \<lparr> resizeWidth := math_round (newHeight * ratio) \<rparr>)
         else s1)"

section \<open>Reset\<close>

definition resetAll :: "'img session \<Rightarrow> 'img session" where
  "resetAll s =
     (case originalImage s of
        Some orig \<Rightarrow>
          s \<lparr> image_url := Some orig,
              imageState := defaultState,
              history := [defaultState],
              historyIndex := 0 \<rparr>
      | None \<Rightarrow> s)"

section \<open>Export\<close>

datatype format = Png | Jpeg | Webp

fun format_name :: "format \<Rightarrow> string" where
  "format_name Png = ''png''"
| "format_name Jpeg = ''jpeg''"
| "format_name Webp = ''webp''"

text \<open>The calls made on the 2D context, in the order of the source.\<close>

datatype canvas_op =
  Translate real real
| Rotate_rad real
| Scale real real
| Set_filter "filter_fn list"
| Draw_image real real

text \<open>
  What \<open>exportImage\<close> produces: the canvas size (a canvas dimension is an integer, the
  assigned number is truncated), the context calls, and the arguments of \<open>toDataURL\<close>
  and of the download link. The session is not changed.
\<close>

record export_job =
  canvas_width :: int
  canvas_height :: int
  ctx_ops :: "canvas_op list"
  mimeType :: string
  quality :: "real option"
  download :: string

definition exportImage :: "'img browser \<Rightarrow> format \<Rightarrow> 'img session \<Rightarrow> export_job option" where
  "exportImage b fmt s =
     (case image_url s of
        None \<Rightarrow> None
      | Some img \<Rightarrow>
          if \<not> context2d b then None
          else if \<not> decodes b img then None
          else
            (let radians = (rotation (imageState s) * pi) / 180;
                 sin_r = \<bar>sin radians\<bar>;
                 cos_r = \<bar>cos radians\<bar>;
                 newWidth = naturalWidth b img * cos_r + naturalHeight b img * sin_r;
                 newHeight = naturalWidth b img * sin_r + naturalHeight b img * cos_r
             in Some
                  \<lparr> canvas_width = \<lfloor>newWidth\<rfloor>,
                    canvas_height = \<lfloor>newHeight\<rfloor>,
                    ctx_ops =
                      [Translate (newWidth / 2) (newHeight / 2), Rotate_rad radians]
                      @ (if flipH (imageState s) then [Scale (- 1) 1] else [])
                      @ (if flipV (imageState s) then [Scale 1 (- 1)] else [])
                      @ [Set_filter (getFilterCss (imageState s)),
                         Draw_image (- naturalWidth b img / 2) (- naturalHeight b img / 2)],
                    mimeType = ''image/'' @ format_name fmt,
                    quality = (if fmt = Jpeg then Some (92 / 100) else None),
                    download = ''edited-image.'' @ format_name fmt \<rparr>))"

section \<open>Transformation matrices\<close>













section \<open>The user interface as a transition system\<close>

text \<open>
  One event for every handler wired in the JSX. A control that is \<open>disabled\<close> or not
  rendered in the current state does nothing.
\<close>

datatype 'img event =
  FileInput "'img picked_file option"
| DropFile "'img picked_file option"
| BrightnessSlider real
| ContrastSlider real
| SaturationSlider real
| RotateLeft
| RotateRight
| FlipHButton
| FlipVButton
| RotationSlider real
| FilterButton nat
| StartCropping
| CropMouseDown mouse_event
| CropMouseMove mouse_event
| CropMouseUp
| ApplyCropButton "rect option"
| CancelCropButton
| WidthInput "int option"
| HeightInput "int option"
| AspectCheckbox bool
| ApplyResizeButton
| UndoButton
| RedoButton
| ResetAllButton
| ExportItem format

fun step :: "'img browser \<Rightarrow> 'img event \<Rightarrow> 'img session \<Rightarrow> 'img session" where
  "step b (FileInput f) s = handleFileUpload b f s"
| "step b (DropFile f) s = handleDrop b f s"
| "step b (BrightnessSlider v) s =
     (if image_url s = None then s else updateState (no_patch \<lparr> p_brightness := Some v \<rparr>) s)"
| "step b (ContrastSlider v) s =
     (if image_url s = None then s else updateState (no_patch \<lparr> p_contrast := Some v \<rparr>) s)"
| "step b (SaturationSlider v) s =
     (if image_url s = None then s else updateState (no_patch \<lparr> p_saturation := Some v \<rparr>) s)"
| "step b RotateLeft s =
     (if image_url s = None then s
      else updateState (no_patch \<lparr> p_rotation := Some (rotation (imageState s) - 90) \<rparr>) s)"
| "step b RotateRight s =
     (if image_url s = None then s
      else updateState (no_patch \<lparr> p_rotation := Some (rotation (imageState s) + 90) \<rparr>) s)"
| "step b FlipHButton s =
     (if image_url s = None then s
      else updateState (no_patch \<lparr> p_flipH := Some (\<not> flipH (imageState s)) \<rparr>) s)"
| "step b FlipVButton s =
     (if image_url s = None then s
      else updateState (no_patch \<lparr> p_flipV := Some (\<not> flipV (imageState s)) \<rparr>) s)"
| "step b (RotationSlider v) s =
     (if image_url s = None then s else updateState (no_patch \<lparr> p_rotation := Some v \<rparr>) s)"
| "step b (FilterButton i) s =
     (if image_url s = None \<or> \<not> i < length filters then s
      else updateState (no_patch \<lparr> p_filter := Some (f_value (filters ! i)) \<rparr>) s)"
| "step b StartCropping s =
     (if image_url s = None \<or> isCropping s then s else s \<lparr> isCropping := True \<rparr>)"
| "step b (CropMouseDown e) s =
     (if image_url s = None then s else handleCropMouseDown e s)"
| "step b (CropMouseMove e) s =
     (if image_url s = None then s else handleCropMouseMove e s)"
| "step b CropMouseUp s =
     (if image_url s = None then s else handleCropMouseUp s)"
| "step b (ApplyCropButton r) s =
     (if \<not> isCropping s then s else applyCrop b r s)"
| "step b CancelCropButton s =
     (if \<not> isCropping s then s else cancelCrop s)"
| "step b (WidthInput v) s =
     (if image_url s = None then s else handleWidthChange v s)"
| "step b (HeightInput v) s =
     (if image_url s = None then s else handleHeightChange v s)"
| "step b (AspectCheckbox c) s = s \<lparr> maintainAspectRatio := c \<rparr>"
| "step b ApplyResizeButton s =
     (if image_url s = None then s else handleResize b s)"
| "step b UndoButton s =
     (if historyIndex s \<le> 0 then s else undo s)"
| "step b RedoButton s =
     (if historyIndex s \<ge> length (history s) - 1 then s else redo s)"
| "step b ResetAllButton s =
     (if image_url s = None then s else resetAll s)"
| "step b (ExportItem fmt) s = s"

definition run :: "'img browser \<Rightarrow> 'img event list \<Rightarrow> 'img session \<Rightarrow> 'img session" where
  "run b evs s = foldl (\<lambda>s e. step b e s) s evs"

section \<open>Invariants of the session\<close>

text \<open>A sequence of \<open>updateState\<close> calls.\<close>

definition pushes :: "ImagePatch list \<Rightarrow> 'img session \<Rightarrow> 'img session" where
  "pushes ps s = foldl (\<lambda>s p. updateState p s) s ps"

text \<open>The cursor is inside the history and the current state is the entry under it.\<close>

definition hist_inv :: "'img session \<Rightarrow> bool" where
  "hist_inv s \<longleftrightarrow>
     historyIndex s < length (history s) \<and>
     imageState s = history s ! historyIndex s"

text \<open>No state of the session holds a crop region.\<close>

definition crop_free :: "'img session \<Rightarrow> bool" where
  "crop_free s \<longleftrightarrow> crop (imageState s) = None \<and> list_all (\<lambda>st. crop st = None) (history s)"

text \<open>The displayed image and the image kept for \<open>resetAll\<close> are the same.\<close>

definition same_source :: "'img session \<Rightarrow> bool" where
  "same_source s \<longleftrightarrow> image_url s = originalImage s"

text \<open>The cursor is on the last entry: nothing can be redone.\<close>

definition at_end :: "'img session \<Rightarrow> bool" where
  "at_end s \<longleftrightarrow> historyIndex s + 1 = length (history s)"

section \<open>A browser on grids of grey levels\<close>

text \<open>
  One browser for the concrete examples: an image is a list of rows of grey levels,
  a crop copies the whole pixels of the source rectangle, a scale smooths (a target
  pixel is the mean of the block of source pixels under it, as the canvas gives for a
  reduction by a whole factor), and an empty image does not decode. Of the filter
  functions only \<open>brightness\<close> is rendered (a linear gain, clamped at 255).
\<close>

type_synonym grid = "nat list list"

definition grid_crop :: "grid \<Rightarrow> real \<Rightarrow> real \<Rightarrow> real \<Rightarrow> real \<Rightarrow> grid" where
  "grid_crop g sx sy sw sh =
     map (\<lambda>row. take (nat \<lfloor>sw\<rfloor>) (drop (nat \<lfloor>sx\<rfloor>) row))
       (take (nat \<lfloor>sh\<rfloor>) (drop (nat \<lfloor>sy\<rfloor>) g))"

definition grid_width :: "grid \<Rightarrow> nat" where
  "grid_width g = (case g of [] \<Rightarrow> 0 | row # _ \<Rightarrow> length row)"

definition grid_block_mean :: "grid \<Rightarrow> nat \<Rightarrow> nat \<Rightarrow> nat \<Rightarrow> nat \<Rightarrow> nat" where
  "grid_block_mean g x0 x1 y0 y1 =
     (let block = concat (map (\<lambda>row. take (x1 - x0) (drop x0 row)) (take (y1 - y0) (drop y0 g)))
      in sum_list block div length block)"

definition grid_scale :: "grid \<Rightarrow> real \<Rightarrow> real \<Rightarrow> grid" where
  "grid_scale g w h =
     map (\<lambda>j. map (\<lambda>i. grid_block_mean g
                         (i * grid_width g div nat \<lfloor>w\<rfloor>)
                         (max ((i + 1) * grid_width g div nat \<lfloor>w\<rfloor>)
                              (i * grid_width g div nat \<lfloor>w\<rfloor> + 1))
                         (j * length g div nat \<lfloor>h\<rfloor>)
                         (max ((j + 1) * length g div nat \<lfloor>h\<rfloor>)
                              (j * length g div nat \<lfloor>h\<rfloor> + 1)))
                [0 ..< nat \<lfloor>w\<rfloor>])
       [0 ..< nat \<lfloor>h\<rfloor>]"

definition grid_browser :: "grid browser" where
  "grid_browser =
     \<lparr> decodes = (\<lambda>g. g \<noteq> []),
       naturalWidth = (\<lambda>g. real (grid_width g)),
       naturalHeight = (\<lambda>g. real (length g)),
       context2d = True,
       drawImage_crop = grid_crop,
       drawImage_scale = grid_scale \<rparr>"

fun grid_filter_fn :: "filter_fn \<Rightarrow> nat \<Rightarrow> nat" where
  "grid_filter_fn (Brightness_pct p) v = min 255 (nat \<lfloor>real v * p / 100\<rfloor>)"
| "grid_filter_fn f v = v"

definition grid_render :: "grid \<Rightarrow> filter_fn list \<Rightarrow> grid" where
  "grid_render g fs = map (map (\<lambda>v. fold grid_filter_fn fs v)) g"

text \<open>
  A session: a 4 by 2 image shown at its natural size with its corner at \<open>(10, 10)\<close>,
  brightness set to 150, and a selection dragged from \<open>(1, 0)\<close> to \<open>(3, 2)\<close> of the
  image.
\<close>

definition demo_image :: grid where
  "demo_image = [[10, 20, 30, 40], [50, 60, 70, 80]]"

definition demo_file :: "grid picked_file" where
  "demo_file = \<lparr> type_is_image = True, dataUrl = demo_image \<rparr>"

definition demo_rect :: rect where
  "demo_rect = \<lparr> rect_left = 10, rect_top = 10, rect_width = 4, rect_height = 2 \<rparr>"

definition demo_press :: mouse_event where
  "demo_press = \<lparr> clientX = 11, clientY = 10, target_rect = demo_rect \<rparr>"

definition demo_drag :: mouse_event where
  "demo_drag = \<lparr> clientX = 13, clientY = 12, target_rect = demo_rect \<rparr>"

definition demo_events :: "grid event list" where
  "demo_events =
     [FileInput (Some demo_file), BrightnessSlider 150, StartCropping,
      CropMouseDown demo_press, CropMouseMove demo_drag]"

definition demo_selected :: "grid session" where
  "demo_selected = run grid_browser demo_events initial"

text \<open>
  A session with no selection: the image, brightness 150 and a width of 2 typed into
  the resize field (the height follows: 1); then the resize is applied.
\<close>

definition demo_sized :: "grid session" where
  "demo_sized =
     run grid_browser
       [FileInput (Some demo_file), BrightnessSlider 150, WidthInput (Some 2)] initial"

definition demo_resize_events :: "grid event list" where
  "demo_resize_events =
     [FileInput (Some demo_file), BrightnessSlider 150, WidthInput (Some 2), ApplyResizeButton]"

text \<open>The same session after the crop is applied.\<close>

definition demo_committed :: "grid session" where
  "demo_committed = run grid_browser (demo_events @ [ApplyCropButton (Some demo_rect)]) initial"

text \<open>A press with no drag, then Apply: a selection of zero width and height.\<close>

definition demo_click_events :: "grid event list" where
  "demo_click_events =
     [FileInput (Some demo_file), StartCropping, CropMouseDown demo_press,
      ApplyCropButton (Some demo_rect)]"

text \<open>
  The image rotated by 90 degrees: its bounding rectangle is 2 by 4 around the same
  centre and reaches above and below the container. The press is on the image, half a
  pixel above the container.
\<close>

definition demo_rotated_rect :: rect where
  "demo_rotated_rect = \<lparr> rect_left = 11, rect_top = 9, rect_width = 2, rect_height = 4 \<rparr>"

definition demo_press_outside :: mouse_event where
  "demo_press_outside = \<lparr> clientX = 12, clientY = 19 / 2, target_rect = demo_rect \<rparr>"

definition demo_outside_events :: "grid event list" where
  "demo_outside_events =
     [FileInput (Some demo_file), RotateRight, StartCropping,
      CropMouseDown demo_press_outside, CropMouseMove demo_drag]"

section \<open>Notions used in the statements about export\<close>

definition canvas_size :: "export_job option \<Rightarrow> (int \<times> int) option" where
  "canvas_size j = map_option (\<lambda>e. (canvas_width e, canvas_height e)) j"

definition with_rotation :: "real \<Rightarrow> 'img session \<Rightarrow> 'img session" where
  "with_rotation d s = s \<lparr> imageState := (imageState s) \<lparr> rotation := d \<rparr> \<rparr>"

section \<open>Where a pixel lands and which filter it gets\<close>















section \<open>The history invariant\<close>

lemma hist_inv_initial: "hist_inv initial"
  by (simp add: hist_inv_def initial_def)

lemma hist_inv_updateState: "hist_inv s \<Longrightarrow> hist_inv (updateState p s)"
  by (simp add: hist_inv_def updateState_def Let_def nth_append min_def)

lemma hist_inv_undo: "hist_inv s \<Longrightarrow> hist_inv (undo s)"
  by (auto simp add: hist_inv_def undo_def)

lemma hist_inv_redo: "hist_inv s \<Longrightarrow> hist_inv (redo s)"
  by (auto simp add: hist_inv_def redo_def)

lemma hist_inv_handleFileUpload: "hist_inv s \<Longrightarrow> hist_inv (handleFileUpload b f s)"
  by (simp add: hist_inv_def handleFileUpload_def Let_def split: option.splits)

lemma hist_inv_handleDrop: "hist_inv s \<Longrightarrow> hist_inv (handleDrop b f s)"
  by (simp add: hist_inv_def handleDrop_def Let_def split: option.splits)

lemma hist_inv_resetAll: "hist_inv s \<Longrightarrow> hist_inv (resetAll s)"
  by (simp add: hist_inv_def resetAll_def split: option.splits)

lemma applyCrop_keeps_edits:
  "imageState (applyCrop b r s) = imageState s \<and>
   history (applyCrop b r s) = history s \<and>
   historyIndex (applyCrop b r s) = historyIndex s"
  by (simp add: applyCrop_def Let_def split: option.splits prod.splits)

lemma handleResize_keeps_edits:
  "imageState (handleResize b s) = imageState s \<and>
   history (handleResize b s) = history s \<and>
   historyIndex (handleResize b s) = historyIndex s"
  by (simp add: handleResize_def Let_def split: option.splits)

lemma step_keeps_edits_other:
  "imageState (handleCropMouseDown e s) = imageState s \<and>
   history (handleCropMouseDown e s) = history s \<and>
   historyIndex (handleCropMouseDown e s) = historyIndex s"
  "imageState (handleCropMouseMove e s) = imageState s \<and>
   history (handleCropMouseMove e s) = history s \<and>
   historyIndex (handleCropMouseMove e s) = historyIndex s"
  "imageState (handleWidthChange v s) = imageState s \<and>
   history (handleWidthChange v s) = history s \<and>
   historyIndex (handleWidthChange v s) = historyIndex s"
  "imageState (handleHeightChange v s) = imageState s \<and>
   history (handleHeightChange v s) = history s \<and>
   historyIndex (handleHeightChange v s) = historyIndex s"
  by (simp_all add: handleCropMouseDown_def handleCropMouseMove_def handleWidthChange_def
        handleHeightChange_def Let_def)

lemma hist_inv_step: "hist_inv s \<Longrightarrow> hist_inv (step b e s)"
proof (cases e)
  case (ApplyCropButton r)
  assume "hist_inv s"
  then show ?thesis using ApplyCropButton applyCrop_keeps_edits [of b r s]
    by (simp add: hist_inv_def)
next
  case ApplyResizeButton
  assume "hist_inv s"
  then show ?thesis using ApplyResizeButton handleResize_keeps_edits [of b s]
    by (simp add: hist_inv_def)
qed (simp_all add: hist_inv_updateState hist_inv_undo hist_inv_redo hist_inv_handleFileUpload
       hist_inv_handleDrop hist_inv_resetAll, 
     simp_all add: hist_inv_def step_keeps_edits_other handleCropMouseUp_def cancelCrop_def)

lemma hist_inv_run: "hist_inv s \<Longrightarrow> hist_inv (run b evs s)"
  unfolding run_def by (induction evs arbitrary: s) (simp_all add: hist_inv_step)

lemma hist_inv_pushes: "hist_inv s \<Longrightarrow> hist_inv (pushes ps s)"
  unfolding pushes_def by (induction ps arbitrary: s) (simp_all add: hist_inv_updateState)

lemma at_end_updateState: "at_end (updateState p s)"
  by (simp add: at_end_def updateState_def Let_def)

lemma at_end_pushes: "at_end s \<Longrightarrow> at_end (pushes ps s)"
  unfolding pushes_def by (induction ps arbitrary: s) (simp_all add: at_end_updateState)

lemma at_end_pushes_Cons: "at_end (pushes (p # ps) s)"
  using at_end_pushes [of "updateState p s" ps] by (simp add: pushes_def at_end_updateState)

lemma redo_undo_id: "hist_inv s \<Longrightarrow> at_end s \<Longrightarrow> redo (undo s) = s"
  by (auto simp add: hist_inv_def at_end_def undo_def redo_def)

lemma fresh_load:
  "hist_inv (handleFileUpload b (Some f) s) \<and> at_end (handleFileUpload b (Some f) s)"
  by (simp add: hist_inv_def at_end_def handleFileUpload_def Let_def)

section \<open>Undo and redo\<close>

text \<open>
  C3. After any sequence of \<open>updateState\<close> calls (from the initial session, from a
  freshly loaded image, or a non-empty sequence from any reachable session), undo
  followed by redo gives back the session as it was before the undo, and so the same
  current \<open>imageState\<close>.
\<close>

theorem undo_redo_roundtrip:
  "redo (undo (pushes ps initial)) = pushes ps initial \<and>
   redo (undo (pushes ps (handleFileUpload b (Some f) s))) =
     pushes ps (handleFileUpload b (Some f) s) \<and>
   redo (undo (pushes (p # ps) (run b evs initial))) = pushes (p # ps) (run b evs initial)"
proof (intro conjI)
  have "at_end (initial :: 'a session)" by (simp add: at_end_def initial_def)
  then show "redo (undo (pushes ps (initial :: 'a session))) = pushes ps initial"
    by (intro redo_undo_id hist_inv_pushes at_end_pushes hist_inv_initial)
  show "redo (undo (pushes ps (handleFileUpload b (Some f) s))) =
     pushes ps (handleFileUpload b (Some f) s)"
    using fresh_load [of b f s] by (intro redo_undo_id hist_inv_pushes at_end_pushes) simp_all
  show "redo (undo (pushes (p # ps) (run b evs initial))) = pushes (p # ps) (run b evs initial)"
    by (intro redo_undo_id hist_inv_pushes at_end_pushes_Cons hist_inv_run hist_inv_initial)
qed

text \<open>
  C2. \<open>updateState\<close> keeps the entries up to the cursor, drops the ones after it,
  appends the new state and moves the cursor to the new last index. For the history
  \<open>[s0, s1, s2]\<close> at cursor 2, two undos give cursor 0 and current state \<open>s0\<close>; a push
  then gives the history \<open>[s0, s3]\<close> (with \<open>s3\<close> the patched \<open>s0\<close>) at cursor 1, and redo
  changes nothing.
\<close>

theorem push_truncates:
  "history (updateState p s) = take (historyIndex s + 1) (history s) @ [spread (imageState s) p] \<and>
   imageState (updateState p s) = spread (imageState s) p \<and>
   historyIndex (updateState p s) = length (history (updateState p s)) - 1 \<and>
   historyIndex (undo (undo (s \<lparr> history := [s0, s1, s2], historyIndex := 2 \<rparr>))) = 0 \<and>
   imageState (undo (undo (s \<lparr> history := [s0, s1, s2], historyIndex := 2 \<rparr>))) = s0 \<and>
   history (updateState p (undo (undo (s \<lparr> history := [s0, s1, s2], historyIndex := 2 \<rparr>)))) =
     [s0, spread s0 p] \<and>
   historyIndex (updateState p (undo (undo (s \<lparr> history := [s0, s1, s2], historyIndex := 2 \<rparr>)))) = 1 \<and>
   redo (updateState p (undo (undo (s \<lparr> history := [s0, s1, s2], historyIndex := 2 \<rparr>)))) =
     updateState p (undo (undo (s \<lparr> history := [s0, s1, s2], historyIndex := 2 \<rparr>)))"
  by (simp add: updateState_def undo_def redo_def Let_def)

section \<open>Crop and resize commits\<close>

lemma demo_loaded_eq:
  "run grid_browser [FileInput (Some demo_file)] initial =
     \<lparr> image_url = Some demo_image, originalImage = Some demo_image,
       imageState = defaultState, history = [defaultState], historyIndex = 0,
       isCropping = False, cropStart = None, cropEnd = None,
       resizeWidth = 4, resizeHeight = 2,
       originalDimensions = \<lparr> dim_width = 4, dim_height = 2 \<rparr>,
       maintainAspectRatio = True \<rparr>"
  by (simp add: run_def initial_def handleFileUpload_def demo_file_def demo_image_def
        grid_browser_def grid_width_def Let_def)

lemma demo_selected_eq:
  "demo_selected =
     \<lparr> image_url = Some demo_image, originalImage = Some demo_image,
       imageState = defaultState \<lparr> brightness := 150 \<rparr>,
       history = [defaultState, defaultState \<lparr> brightness := 150 \<rparr>], historyIndex = 1,
       isCropping = True,
       cropStart = Some \<lparr> pt_x = 1, pt_y = 0 \<rparr>, cropEnd = Some \<lparr> pt_x = 3, pt_y = 2 \<rparr>,
       resizeWidth = 4, resizeHeight = 2,
       originalDimensions = \<lparr> dim_width = 4, dim_height = 2 \<rparr>,
       maintainAspectRatio = True \<rparr>"
  by (simp add: demo_selected_def demo_events_def run_def initial_def handleFileUpload_def demo_file_def
        demo_image_def grid_browser_def grid_width_def Let_def updateState_def spread_def
        no_patch_def defaultState_def handleCropMouseDown_def handleCropMouseMove_def
        demo_press_def demo_drag_def demo_rect_def)

lemma demo_region:
  "crop_source_rect demo_selected demo_rect \<lparr> pt_x = 1, pt_y = 0 \<rparr> \<lparr> pt_x = 3, pt_y = 2 \<rparr> =
     \<lparr> region_x = 1, region_y = 0, region_width = 2, region_height = 2 \<rparr>"
  by (simp add: demo_selected_eq crop_source_rect_def demo_rect_def Let_def)

lemma demo_cropped:
  "applyCrop grid_browser (Some demo_rect) demo_selected =
     demo_selected \<lparr> image_url := Some [[20, 30], [60, 70]],
                     originalImage := Some [[20, 30], [60, 70]],
                     originalDimensions := \<lparr> dim_width = 2, dim_height = 2 \<rparr>,
                     resizeWidth := 2, resizeHeight := 2,
                     isCropping := False, cropStart := None, cropEnd := None \<rparr>"
  by (simp add: applyCrop_def demo_selected_eq crop_source_rect_def demo_rect_def Let_def
        grid_browser_def demo_image_def grid_crop_def)

lemma run_snoc: "run b (evs @ [e]) s = step b e (run b evs s)"
  by (simp add: run_def)

lemma demo_committed_eq:
  "demo_committed =
     demo_selected \<lparr> image_url := Some [[20, 30], [60, 70]],
                     originalImage := Some [[20, 30], [60, 70]],
                     originalDimensions := \<lparr> dim_width = 2, dim_height = 2 \<rparr>,
                     resizeWidth := 2, resizeHeight := 2,
                     isCropping := False, cropStart := None, cropEnd := None \<rparr>"
proof -
  have "demo_committed = step grid_browser (ApplyCropButton (Some demo_rect)) demo_selected"
    by (simp add: demo_committed_def demo_selected_def run_snoc)
  also have "\<dots> = applyCrop grid_browser (Some demo_rect) demo_selected"
    by (simp add: demo_selected_eq)
  finally show ?thesis by (simp add: demo_cropped)
qed

lemma demo_sized_eq:
  "demo_sized =
     \<lparr> image_url = Some demo_image, originalImage = Some demo_image,
       imageState = defaultState \<lparr> brightness := 150 \<rparr>,
       history = [defaultState, defaultState \<lparr> brightness := 150 \<rparr>], historyIndex = 1,
       isCropping = False, cropStart = None, cropEnd = None,
       resizeWidth = 2, resizeHeight = 1,
       originalDimensions = \<lparr> dim_width = 4, dim_height = 2 \<rparr>,
       maintainAspectRatio = True \<rparr>"
  by (simp add: demo_sized_def run_def initial_def handleFileUpload_def demo_file_def
        demo_image_def grid_browser_def grid_width_def Let_def updateState_def spread_def
        no_patch_def defaultState_def handleWidthChange_def math_round_def)

lemma demo_scaled: "grid_scale demo_image 2 1 = [[35, 55]]"
  by (simp add: grid_scale_def grid_block_mean_def demo_image_def grid_width_def Let_def
        upt_conv_Cons)

lemma demo_resized:
  "run grid_browser demo_resize_events initial =
     demo_sized \<lparr> image_url := Some [[35, 55]],
                  originalImage := Some [[35, 55]],
                  originalDimensions := \<lparr> dim_width = 2, dim_height = 1 \<rparr> \<rparr>"
proof -
  have "run grid_browser demo_resize_events initial =
          step grid_browser ApplyResizeButton demo_sized"
    by (simp add: demo_resize_events_def demo_sized_def run_def)
  also have "\<dots> = handleResize grid_browser demo_sized"
    by (simp add: demo_sized_eq)
  also have "\<dots> = demo_sized \<lparr> image_url := Some (grid_scale demo_image 2 1),
                  originalImage := Some (grid_scale demo_image 2 1),
                  originalDimensions := \<lparr> dim_width = 2, dim_height = 1 \<rparr> \<rparr>"
    by (simp add: handleResize_def demo_sized_eq grid_browser_def demo_image_def Let_def)
  finally show ?thesis by (simp add: demo_scaled)
qed

text \<open>
  C1 (as amended). A crop and a resize leave \<open>imageState\<close>, \<open>history\<close> and
  \<open>historyIndex\<close> as they were. A committed crop (a selection, an image that decodes)
  installs the new raster as \<open>image\<close> and as \<open>originalImage\<close>; so does a committed
  resize (an image that decodes, with or without a selection).
\<close>

theorem commit_keeps_edit_state:
  "imageState (applyCrop b r s) = imageState s \<and>
   history (applyCrop b r s) = history s \<and>
   historyIndex (applyCrop b r s) = historyIndex s \<and>
   imageState (handleResize b s) = imageState s \<and>
   history (handleResize b s) = history s \<and>
   historyIndex (handleResize b s) = historyIndex s \<and>
   (cropStart s = Some cs \<and> cropEnd s = Some ce \<and> image_url s = Some img \<and>
    context2d b \<and> decodes b img \<longrightarrow>
      image_url (applyCrop b (Some box) s) =
        Some (drawImage_crop b img (region_x (crop_source_rect s box cs ce))
                (region_y (crop_source_rect s box cs ce))
                (region_width (crop_source_rect s box cs ce))
                (region_height (crop_source_rect s box cs ce))) \<and>
      originalImage (applyCrop b (Some box) s) = image_url (applyCrop b (Some box) s)) \<and>
   (image_url s = Some img \<and> context2d b \<and> decodes b img \<longrightarrow>
      image_url (handleResize b s) =
        Some (drawImage_scale b img (resizeWidth s) (resizeHeight s)) \<and>
      originalImage (handleResize b s) = image_url (handleResize b s))"
  using applyCrop_keeps_edits [of b r s] handleResize_keeps_edits [of b s]
  by (simp add: applyCrop_def handleResize_def Let_def)

text \<open>
  The amended statement at the example session with its selection (the crop) and at
  the example session with no selection (the resize).
\<close>

theorem commit_keeps_edit_state_witness:
  "cropStart demo_selected = Some \<lparr> pt_x = 1, pt_y = 0 \<rparr> \<and>
   cropEnd demo_selected = Some \<lparr> pt_x = 3, pt_y = 2 \<rparr> \<and>
   image_url demo_selected = Some demo_image \<and>
   context2d grid_browser \<and> decodes grid_browser demo_image \<and>
   image_url (applyCrop grid_browser (Some demo_rect) demo_selected) = Some [[20, 30], [60, 70]] \<and>
   originalImage (applyCrop grid_browser (Some demo_rect) demo_selected) =
     Some [[20, 30], [60, 70]] \<and>
   imageState (applyCrop grid_browser (Some demo_rect) demo_selected) =
     defaultState \<lparr> brightness := 150 \<rparr> \<and>
   history (applyCrop grid_browser (Some demo_rect) demo_selected) =
     [defaultState, defaultState \<lparr> brightness := 150 \<rparr>] \<and>
   historyIndex (applyCrop grid_browser (Some demo_rect) demo_selected) = 1 \<and>
   cropStart demo_sized = None \<and> cropEnd demo_sized = None \<and>
   image_url demo_sized = Some demo_image \<and>
   image_url (handleResize grid_browser demo_sized) = Some [[35, 55]] \<and>
   originalImage (handleResize grid_browser demo_sized) = Some [[35, 55]] \<and>
   imageState (handleResize grid_browser demo_sized) = defaultState \<lparr> brightness := 150 \<rparr> \<and>
   history (handleResize grid_browser demo_sized) =
     [defaultState, defaultState \<lparr> brightness := 150 \<rparr>] \<and>
   historyIndex (handleResize grid_browser demo_sized) = 1"
proof -
  have h1: "cropStart demo_selected = Some \<lparr> pt_x = 1, pt_y = 0 \<rparr>"
    and h2: "cropEnd demo_selected = Some \<lparr> pt_x = 3, pt_y = 2 \<rparr>"
    and h3: "image_url demo_selected = Some demo_image"
    by (simp_all add: demo_selected_eq)
  have h4: "context2d grid_browser" and h5: "decodes grid_browser demo_image"
    by (simp_all add: grid_browser_def demo_image_def)
  have e: "imageState demo_selected = defaultState \<lparr> brightness := 150 \<rparr>"
    "history demo_selected = [defaultState, defaultState \<lparr> brightness := 150 \<rparr>]"
    "historyIndex demo_selected = 1"
    by (simp_all add: demo_selected_eq)
  have g: "drawImage_crop grid_browser demo_image 1 0 2 2 = [[20, 30], [60, 70]]"
    by (simp add: grid_browser_def grid_crop_def demo_image_def)
  have k1: "cropStart demo_sized = None" and k2: "cropEnd demo_sized = None"
    and k3: "image_url demo_sized = Some demo_image"
    and k4: "resizeWidth demo_sized = 2" and k5: "resizeHeight demo_sized = 1"
    by (simp_all add: demo_sized_eq)
  have f: "imageState demo_sized = defaultState \<lparr> brightness := 150 \<rparr>"
    "history demo_sized = [defaultState, defaultState \<lparr> brightness := 150 \<rparr>]"
    "historyIndex demo_sized = 1"
    by (simp_all add: demo_sized_eq)
  have d: "drawImage_scale grid_browser demo_image 2 1 = [[35, 55]]"
    by (simp add: grid_browser_def demo_scaled)
  have crop_part:
    "image_url (applyCrop grid_browser (Some demo_rect) demo_selected) = Some [[20, 30], [60, 70]] \<and>
     originalImage (applyCrop grid_browser (Some demo_rect) demo_selected) =
       Some [[20, 30], [60, 70]] \<and>
     imageState (applyCrop grid_browser (Some demo_rect) demo_selected) =
       defaultState \<lparr> brightness := 150 \<rparr> \<and>
     history (applyCrop grid_browser (Some demo_rect) demo_selected) =
       [defaultState, defaultState \<lparr> brightness := 150 \<rparr>] \<and>
     historyIndex (applyCrop grid_browser (Some demo_rect) demo_selected) = 1"
    using commit_keeps_edit_state
            [of grid_browser "Some demo_rect" demo_selected "\<lparr> pt_x = 1, pt_y = 0 \<rparr>"
                "\<lparr> pt_x = 3, pt_y = 2 \<rparr>" demo_image demo_rect]
          h1 h2 h3 h4 h5
    by (simp add: demo_region e g)
  have resize_part:
    "image_url (handleResize grid_browser demo_sized) = Some [[35, 55]] \<and>
     originalImage (handleResize grid_browser demo_sized) = Some [[35, 55]] \<and>
     imageState (handleResize grid_browser demo_sized) = defaultState \<lparr> brightness := 150 \<rparr> \<and>
     history (handleResize grid_browser demo_sized) =
       [defaultState, defaultState \<lparr> brightness := 150 \<rparr>] \<and>
     historyIndex (handleResize grid_browser demo_sized) = 1"
    using commit_keeps_edit_state
            [of grid_browser None demo_sized "\<lparr> pt_x = 0, pt_y = 0 \<rparr>"
                "\<lparr> pt_x = 0, pt_y = 0 \<rparr>" demo_image demo_rect]
          k3 h4 h5
    by (simp add: f d k4 k5)
  show ?thesis using crop_part resize_part h1 h2 h3 h4 h5 k1 k2 k3 by simp
qed

text \<open>
  C1 as stated fails: with brightness 150 in the history, the crop is committed (the
  image changes) and the edit state, the history and the cursor are not the defaults;
  likewise for the resize.
\<close>

theorem commit_resets_edit_state_counterexample:
  "image_url (applyCrop grid_browser (Some demo_rect) demo_selected) = Some [[20, 30], [60, 70]] \<and>
   image_url demo_selected = Some [[10, 20, 30, 40], [50, 60, 70, 80]] \<and>
   \<not> (imageState (applyCrop grid_browser (Some demo_rect) demo_selected) = defaultState \<and>
      history (applyCrop grid_browser (Some demo_rect) demo_selected) = [defaultState] \<and>
      historyIndex (applyCrop grid_browser (Some demo_rect) demo_selected) = 0) \<and>
   image_url (run grid_browser demo_resize_events initial) = Some [[35, 55]] \<and>
   \<not> (imageState (run grid_browser demo_resize_events initial) = defaultState \<and>
      history (run grid_browser demo_resize_events initial) = [defaultState] \<and>
      historyIndex (run grid_browser demo_resize_events initial) = 0)"
  by (simp add: demo_cropped demo_resized, simp add: demo_selected_eq demo_sized_eq demo_image_def)

section \<open>The crop field of the edit state\<close>

lemma crop_spread: "p_crop p = None \<Longrightarrow> crop (spread st p) = crop st"
  by (simp add: spread_def)

lemma crop_free_updateState:
  "crop_free s \<Longrightarrow> p_crop p = None \<Longrightarrow> crop_free (updateState p s)"
  by (auto simp add: crop_free_def updateState_def Let_def crop_spread list_all_iff
      dest: in_set_takeD)

lemma crop_free_undo: "hist_inv s \<Longrightarrow> crop_free s \<Longrightarrow> crop_free (undo s)"
  by (auto simp add: crop_free_def hist_inv_def undo_def list_all_length)

lemma crop_free_redo: "crop_free s \<Longrightarrow> crop_free (redo s)"
  by (auto simp add: crop_free_def redo_def list_all_length)

lemma crop_free_handleFileUpload: "crop_free s \<Longrightarrow> crop_free (handleFileUpload b f s)"
  by (simp add: crop_free_def handleFileUpload_def Let_def defaultState_def split: option.splits)

lemma crop_free_handleDrop: "crop_free s \<Longrightarrow> crop_free (handleDrop b f s)"
  by (simp add: crop_free_def handleDrop_def Let_def defaultState_def split: option.splits)

lemma crop_free_resetAll: "crop_free s \<Longrightarrow> crop_free (resetAll s)"
  by (simp add: crop_free_def resetAll_def defaultState_def split: option.splits)

lemma crop_free_step: "hist_inv s \<Longrightarrow> crop_free s \<Longrightarrow> crop_free (step b e s)"
proof (cases e)
  case (ApplyCropButton r)
  assume "crop_free s"
  then show ?thesis using ApplyCropButton applyCrop_keeps_edits [of b r s]
    by (simp add: crop_free_def)
next
  case ApplyResizeButton
  assume "crop_free s"
  then show ?thesis using ApplyResizeButton handleResize_keeps_edits [of b s]
    by (simp add: crop_free_def)
qed (simp_all add: crop_free_updateState crop_free_undo crop_free_redo
       crop_free_handleFileUpload crop_free_handleDrop crop_free_resetAll no_patch_def,
     simp_all add: crop_free_def step_keeps_edits_other handleCropMouseUp_def cancelCrop_def)

lemma reachable_invs:
  "hist_inv s \<Longrightarrow> crop_free s \<Longrightarrow>
   hist_inv (run b evs s) \<and> crop_free (run b evs s)"
  unfolding run_def
  by (induction evs arbitrary: s) (simp_all add: hist_inv_step crop_free_step)

lemma crop_free_initial: "crop_free initial"
  by (simp add: crop_free_def initial_def defaultState_def)

lemma crop_not_read:
  "getFilterCss (st \<lparr> crop := c \<rparr>) = getFilterCss st"
  "getTransform (st \<lparr> crop := c \<rparr>) = getTransform st"
  "exportImage b fmt (s \<lparr> imageState := (imageState s) \<lparr> crop := c \<rparr> \<rparr>) = exportImage b fmt s"
proof -
  show f: "getFilterCss (st \<lparr> crop := c \<rparr>) = getFilterCss st" for st
    by (simp add: getFilterCss_def)
  show "getTransform (st \<lparr> crop := c \<rparr>) = getTransform st"
    by (simp add: getTransform_def)
  show "exportImage b fmt (s \<lparr> imageState := (imageState s) \<lparr> crop := c \<rparr> \<rparr>) = exportImage b fmt s"
    by (cases "image_url s") (simp_all add: exportImage_def f Let_def)
qed

text \<open>
  C10. In every session reachable from the initial one, the \<open>crop\<close> field of the current
  \<open>imageState\<close> and of every history entry is null: no handler wired in the interface
  writes it. The preview style and the export do not read the field.
\<close>

theorem crop_field_always_null:
  "crop (imageState (run b evs initial)) = None \<and>
   list_all (\<lambda>st. crop st = None) (history (run b evs initial)) \<and>
   getFilterCss (st \<lparr> crop := c \<rparr>) = getFilterCss st \<and>
   getTransform (st \<lparr> crop := c \<rparr>) = getTransform st \<and>
   exportImage b fmt (s \<lparr> imageState := (imageState s) \<lparr> crop := c \<rparr> \<rparr>) = exportImage b fmt s"
  using reachable_invs [OF hist_inv_initial crop_free_initial, of b evs]
  by (simp add: crop_free_def crop_not_read)

section \<open>Full reset\<close>

lemma same_source_step: "same_source s \<Longrightarrow> same_source (step b e s)"
  by (cases e)
     (simp_all add: same_source_def updateState_def undo_def redo_def handleFileUpload_def
        handleDrop_def resetAll_def applyCrop_def handleResize_def handleCropMouseDown_def
        handleCropMouseMove_def handleCropMouseUp_def cancelCrop_def handleWidthChange_def
        handleHeightChange_def Let_def split: option.splits)

lemma same_source_run: "same_source s \<Longrightarrow> same_source (run b evs s)"
  unfolding run_def by (induction evs arbitrary: s) (simp_all add: same_source_step)

lemma same_source_initial: "same_source initial"
  by (simp add: same_source_def initial_def)

text \<open>
  C6 (as amended). \<open>resetAll\<close> installs \<open>originalImage\<close>, which in every reachable
  session is the current image (the upload, or the result of the last crop or resize
  commit): the image stays as it is. With an image loaded, \<open>imageState\<close>, \<open>history\<close>
  and \<open>historyIndex\<close> are reset to the defaults.
\<close>

theorem resetAll_keeps_current_source:
  "image_url (resetAll (run b evs initial)) = image_url (run b evs initial) \<and>
   (image_url (run b evs initial) \<noteq> None \<longrightarrow>
      imageState (resetAll (run b evs initial)) = defaultState \<and>
      history (resetAll (run b evs initial)) = [defaultState] \<and>
      historyIndex (resetAll (run b evs initial)) = 0)"
  using same_source_run [OF same_source_initial, of b evs]
  by (auto simp add: same_source_def resetAll_def split: option.splits)

text \<open>The amended statement at the example session after its crop commit.\<close>

theorem resetAll_keeps_current_source_witness:
  "image_url (run grid_browser (demo_events @ [ApplyCropButton (Some demo_rect)]) initial) \<noteq> None \<and>
   image_url (resetAll (run grid_browser (demo_events @ [ApplyCropButton (Some demo_rect)]) initial)) =
     Some [[20, 30], [60, 70]] \<and>
   imageState (resetAll (run grid_browser (demo_events @ [ApplyCropButton (Some demo_rect)]) initial)) =
     defaultState \<and>
   history (resetAll (run grid_browser (demo_events @ [ApplyCropButton (Some demo_rect)]) initial)) =
     [defaultState] \<and>
   historyIndex (resetAll (run grid_browser (demo_events @ [ApplyCropButton (Some demo_rect)]) initial)) = 0"
proof -
  have h: "image_url (run grid_browser (demo_events @ [ApplyCropButton (Some demo_rect)]) initial) =
             Some [[20, 30], [60, 70]]"
    using demo_committed_eq by (simp add: demo_committed_def)
  show ?thesis
    using resetAll_keeps_current_source [of grid_browser "demo_events @ [ApplyCropButton (Some demo_rect)]"] h
    by simp
qed

text \<open>
  C6 as stated fails: after upload, crop commit and \<open>resetAll\<close> the image is the
  cropped one, not the uploaded one.
\<close>

theorem resetAll_restores_upload_counterexample:
  "image_url (run grid_browser [FileInput (Some demo_file)] initial) =
     Some [[10, 20, 30, 40], [50, 60, 70, 80]] \<and>
   image_url (resetAll (run grid_browser (demo_events @ [ApplyCropButton (Some demo_rect)]) initial)) =
     Some [[20, 30], [60, 70]] \<and>
   image_url (resetAll (run grid_browser (demo_events @ [ApplyCropButton (Some demo_rect)]) initial)) \<noteq>
     image_url (run grid_browser [FileInput (Some demo_file)] initial)"
proof -
  have "run grid_browser (demo_events @ [ApplyCropButton (Some demo_rect)]) initial = demo_committed"
    by (simp add: demo_committed_def)
  then show ?thesis
    by (simp add: demo_committed_eq demo_loaded_eq resetAll_def demo_selected_eq demo_image_def)
qed

section \<open>What a crop rasterises\<close>

text \<open>
  C4 (as amended). With no rotation and no flip active, a committed crop installs the
  selected rectangle of the source image \<open>image\<close> itself, drawn with no filter: the
  installed pixels are the same whatever brightness, contrast, saturation and filter
  preset are. Nothing is stated for a crop under a rotation or a flip.
\<close>

theorem crop_takes_source_pixels:
  assumes "cropStart s = Some cs" and "cropEnd s = Some ce" and "image_url s = Some img"
    and "context2d b" and "decodes b img"
    and "rotation (imageState s) = 0" and "\<not> flipH (imageState s)" and "\<not> flipV (imageState s)"
  shows "image_url
           (applyCrop b (Some box)
              (s \<lparr> imageState := (imageState s)
                     \<lparr> brightness := br, contrast := co, saturation := sa, filter_val := fv \<rparr> \<rparr>)) =
           Some (drawImage_crop b img (region_x (crop_source_rect s box cs ce))
                   (region_y (crop_source_rect s box cs ce))
                   (region_width (crop_source_rect s box cs ce))
                   (region_height (crop_source_rect s box cs ce)))"
  using assms by (simp add: applyCrop_def crop_source_rect_def Let_def)

lemma demo_filter:
  "getFilterCss (imageState demo_selected) =
     [Brightness_pct 150, Contrast_pct 100, Saturate_pct 100]"
  by (simp add: demo_selected_eq getFilterCss_def filters_def defaultState_def)

lemma demo_rendered_crop:
  "grid_crop (grid_render demo_image (getFilterCss (imageState demo_selected))) 1 0 2 2 =
     [[30, 45], [90, 105]]"
  by (simp add: demo_filter grid_render_def grid_crop_def demo_image_def)

text \<open>
  The amended statement at the example session (no rotation, no flip), with the colour
  settings put back to their defaults: the installed pixels are those of the crop made
  at brightness 150.
\<close>

theorem crop_takes_source_pixels_witness:
  "cropStart demo_selected = Some \<lparr> pt_x = 1, pt_y = 0 \<rparr> \<and>
   cropEnd demo_selected = Some \<lparr> pt_x = 3, pt_y = 2 \<rparr> \<and>
   image_url demo_selected = Some demo_image \<and>
   context2d grid_browser \<and> decodes grid_browser demo_image \<and>
   rotation (imageState demo_selected) = 0 \<and>
   \<not> flipH (imageState demo_selected) \<and> \<not> flipV (imageState demo_selected) \<and>
   image_url
     (applyCrop grid_browser (Some demo_rect)
        (demo_selected \<lparr> imageState := (imageState demo_selected)
           \<lparr> brightness := 100, contrast := 100, saturation := 100,
             filter_val := ''none'' \<rparr> \<rparr>)) =
     Some [[20, 30], [60, 70]] \<and>
   image_url (applyCrop grid_browser (Some demo_rect) demo_selected) = Some [[20, 30], [60, 70]]"
proof -
  have h1: "cropStart demo_selected = Some \<lparr> pt_x = 1, pt_y = 0 \<rparr>"
    and h2: "cropEnd demo_selected = Some \<lparr> pt_x = 3, pt_y = 2 \<rparr>"
    and h3: "image_url demo_selected = Some demo_image"
    by (simp_all add: demo_selected_eq)
  have h4: "context2d grid_browser" and h5: "decodes grid_browser demo_image"
    by (simp_all add: grid_browser_def demo_image_def)
  have h6: "rotation (imageState demo_selected) = 0"
    and h7: "\<not> flipH (imageState demo_selected)" and h8: "\<not> flipV (imageState demo_selected)"
    by (simp_all add: demo_selected_eq defaultState_def)
  have g: "drawImage_crop grid_browser demo_image 1 0 2 2 = [[20, 30], [60, 70]]"
    by (simp add: grid_browser_def grid_crop_def demo_image_def)
  show ?thesis
    using crop_takes_source_pixels
            [where box = demo_rect and br = 100 and co = 100 and sa = 100 and fv = "''none''",
             OF h1 h2 h3 h4 h5 h6 h7 h8]
      h1 h2 h3 h4 h5 h6 h7 h8
    by (simp add: demo_region g demo_cropped)
qed

text \<open>
  C4 as stated fails: with brightness 150 the rendered image is brighter than the
  source, and the installed pixels are those of the source rectangle, not of the
  rendered one.
\<close>

theorem crop_of_rendered_image_counterexample:
  "crop_source_rect demo_selected demo_rect \<lparr> pt_x = 1, pt_y = 0 \<rparr> \<lparr> pt_x = 3, pt_y = 2 \<rparr> =
     \<lparr> region_x = 1, region_y = 0, region_width = 2, region_height = 2 \<rparr> \<and>
   drawImage_crop grid_browser
     (grid_render demo_image (getFilterCss (imageState demo_selected))) 1 0 2 2 =
     [[30, 45], [90, 105]] \<and>
   image_url (applyCrop grid_browser (Some demo_rect) demo_selected) = Some [[20, 30], [60, 70]] \<and>
   image_url (applyCrop grid_browser (Some demo_rect) demo_selected) \<noteq>
     Some (drawImage_crop grid_browser
             (grid_render demo_image (getFilterCss (imageState demo_selected))) 1 0 2 2)"
proof -
  have "drawImage_crop grid_browser = grid_crop" by (simp add: grid_browser_def)
  then show ?thesis by (simp add: demo_region demo_rendered_crop demo_cropped)
qed

section \<open>Degenerate and out-of-range selections\<close>

text \<open>
  C7. A press without a drag gives a selection of zero width and height. \<open>applyCrop\<close>
  does not refuse it: the empty raster is installed as \<open>image\<close> and \<open>originalImage\<close>,
  the dimensions become 0 by 0 and crop mode is left.
\<close>

theorem degenerate_crop_is_committed:
  "cropStart (run grid_browser [FileInput (Some demo_file), StartCropping, CropMouseDown demo_press] initial)
     = Some \<lparr> pt_x = 1, pt_y = 0 \<rparr> \<and>
   cropEnd (run grid_browser [FileInput (Some demo_file), StartCropping, CropMouseDown demo_press] initial)
     = Some \<lparr> pt_x = 1, pt_y = 0 \<rparr> \<and>
   isCropping (run grid_browser [FileInput (Some demo_file), StartCropping, CropMouseDown demo_press] initial) \<and>
   image_url (run grid_browser demo_click_events initial) = Some [] \<and>
   originalImage (run grid_browser demo_click_events initial) = Some [] \<and>
   originalDimensions (run grid_browser demo_click_events initial) =
     \<lparr> dim_width = 0, dim_height = 0 \<rparr> \<and>
   \<not> isCropping (run grid_browser demo_click_events initial)"
  by (simp add: demo_click_events_def run_def initial_def handleFileUpload_def demo_file_def
        demo_image_def grid_browser_def grid_width_def Let_def handleCropMouseDown_def
        demo_press_def demo_rect_def applyCrop_def crop_source_rect_def grid_crop_def)

text \<open>The point stored by a move is inside the bounding rectangle of the container.\<close>

lemma move_is_clamped:
  assumes "isCropping s" and "cropStart s \<noteq> None"
    and "0 \<le> rect_width (target_rect e)" and "0 \<le> rect_height (target_rect e)"
  shows "\<exists>p. cropEnd (handleCropMouseMove e s) = Some p \<and>
           0 \<le> pt_x p \<and> pt_x p \<le> rect_width (target_rect e) \<and>
           0 \<le> pt_y p \<and> pt_y p \<le> rect_height (target_rect e)"
  using assms by (auto simp add: handleCropMouseMove_def Let_def)

text \<open>
  C8. The point stored by a press is not clamped: a press on the rotated image, above
  the container, stores a negative \<open>y\<close>, and the source rectangle computed by
  \<open>applyCrop\<close> starts at \<open>y = - 1 / 4\<close> and ends at \<open>x = 6\<close>, outside the 4 by 2 source.
\<close>

theorem press_is_not_clamped:
  "cropStart (run grid_browser demo_outside_events initial) = Some \<lparr> pt_x = 2, pt_y = - 1 / 2 \<rparr> \<and>
   cropEnd (run grid_browser demo_outside_events initial) = Some \<lparr> pt_x = 3, pt_y = 2 \<rparr> \<and>
   originalDimensions (run grid_browser demo_outside_events initial) =
     \<lparr> dim_width = 4, dim_height = 2 \<rparr> \<and>
   crop_source_rect (run grid_browser demo_outside_events initial) demo_rotated_rect
       \<lparr> pt_x = 2, pt_y = - 1 / 2 \<rparr> \<lparr> pt_x = 3, pt_y = 2 \<rparr> =
     \<lparr> region_x = 4, region_y = - 1 / 4, region_width = 2, region_height = 5 / 4 \<rparr>"
  by (simp add: demo_outside_events_def run_def initial_def handleFileUpload_def demo_file_def
        demo_image_def grid_browser_def grid_width_def Let_def handleCropMouseDown_def
        handleCropMouseMove_def demo_press_outside_def demo_drag_def demo_rect_def
        demo_rotated_rect_def updateState_def crop_source_rect_def)

section \<open>Export\<close>

lemma trig_three_quarter_turn: "sin (3 * pi / 2) = - 1" "cos (3 * pi / 2) = 0"
  using sin_3over2_pi cos_3over2_pi by simp_all

text \<open>
  C9. For a source image of \<open>W\<close> by \<open>H\<close> pixels the export canvas, sized by
  \<open>w |cos t| + h |sin t|\<close> and \<open>w |sin t| + h |cos t|\<close>, is \<open>(W, H)\<close>, \<open>(H, W)\<close>, \<open>(W, H)\<close>,
  \<open>(H, W)\<close> for a rotation of 0, 90, 180, 270 degrees (with exact sine and cosine).
\<close>

theorem export_canvas_right_angles:
  assumes "image_url s = Some img" and "context2d b" and "decodes b img"
    and "naturalWidth b img = real W" and "naturalHeight b img = real H"
  shows "canvas_size (exportImage b fmt (with_rotation 0 s)) = Some (int W, int H) \<and>
         canvas_size (exportImage b fmt (with_rotation 90 s)) = Some (int H, int W) \<and>
         canvas_size (exportImage b fmt (with_rotation 180 s)) = Some (int W, int H) \<and>
         canvas_size (exportImage b fmt (with_rotation 270 s)) = Some (int H, int W)"
  using assms
  by (simp add: canvas_size_def with_rotation_def exportImage_def Let_def trig_three_quarter_turn)

text \<open>The statement at the 4 by 2 example image.\<close>

theorem export_canvas_right_angles_witness:
  "image_url demo_selected = Some demo_image \<and>
   context2d grid_browser \<and> decodes grid_browser demo_image \<and>
   naturalWidth grid_browser demo_image = real 4 \<and>
   naturalHeight grid_browser demo_image = real 2 \<and>
   canvas_size (exportImage grid_browser Png (with_rotation 0 demo_selected)) = Some (4, 2) \<and>
   canvas_size (exportImage grid_browser Png (with_rotation 90 demo_selected)) = Some (2, 4) \<and>
   canvas_size (exportImage grid_browser Png (with_rotation 180 demo_selected)) = Some (4, 2) \<and>
   canvas_size (exportImage grid_browser Png (with_rotation 270 demo_selected)) = Some (2, 4)"
proof -
  have h1: "image_url demo_selected = Some demo_image" by (simp add: demo_selected_eq)
  have h2: "context2d grid_browser" and h3: "decodes grid_browser demo_image"
    and h4: "naturalWidth grid_browser demo_image = real 4"
    and h5: "naturalHeight grid_browser demo_image = real 2"
    by (simp_all add: grid_browser_def demo_image_def grid_width_def)
  show ?thesis
    using export_canvas_right_angles [OF h1 h2 h3 h4 h5, of Png] h1 h2 h3 h4 h5
    by simp
qed





















end
